theory Spec2Isabelle
  imports Main "HOL-Library.Multiset"
begin

section \<open>Data model of App.tsx\<close>

text \<open>
  A JavaScript string is modelled as a \<open>string\<close>, one \<open>char\<close> per code unit, for
  the texts whose code units are below 256. The only non-ASCII letter of the literals of App.tsx is the e with acute accent (U+00E9) of
  the word written in the user messages.
\<close>

definition Pokemon_word :: string where
  "Pokemon_word = ''Pok'' @ [CHR 0xE9] @ ''mon''"

text \<open>
  \<open>PokemonRarity\<close> is the enum imported from ./types. Its eight members are the ones
  App.tsx names. TypeScript does not confine a run-time value to them (a record read back
  from the store or returned by the generation client can carry anything), which is what the
  \<open>default:\<close> branches of the source are for: \<open>Unmapped t\<close> is any value outside the
  enum, with \<open>t\<close> the text it prints as.
\<close>

datatype PokemonRarity = S_PLUS | S | A | B | C | D | E | F | Unmapped string

datatype PokemonStatus = OWNED | RESOLD

record PokemonEvolution =
  evolutionName :: string
  evolutionDescription :: string
  evolutionStats :: string
  evolutionImageBase64 :: string
  evolution_generatedAt :: string

record Pokemon =
  pokemon_id :: string
  name :: string
  rarity :: PokemonRarity
  status :: PokemonStatus
  generatedAt :: string
  imageBase64 :: string
  evolution :: "PokemonEvolution option"

datatype MessageType = Success | Error | Warning

record AppMessage =
  mtype :: MessageType
  mtext :: string

section \<open>Economy rules\<close>

definition GENERATION_COST :: int where
  "GENERATION_COST = 10"

fun getRarityResellValue :: "PokemonRarity \<Rightarrow> int" where
  "getRarityResellValue S_PLUS = 25"
| "getRarityResellValue S = 15"
| "getRarityResellValue A = 10"
| "getRarityResellValue B = 5"
| "getRarityResellValue C = 4"
| "getRarityResellValue D = 3"
| "getRarityResellValue E = 2"
| "getRarityResellValue F = 1"
| "getRarityResellValue _ = 1"

text \<open>
  \<open>rarityOrderMap\<close> is an object with one property per enum member; reading it at any
  other key gives \<open>undefined\<close>, here \<open>None\<close>.
\<close>

fun rarityOrderMap :: "PokemonRarity \<Rightarrow> int option" where
  "rarityOrderMap S_PLUS = Some 7"
| "rarityOrderMap S = Some 6"
| "rarityOrderMap A = Some 5"
| "rarityOrderMap B = Some 4"
| "rarityOrderMap C = Some 3"
| "rarityOrderMap D = Some 2"
| "rarityOrderMap E = Some 1"
| "rarityOrderMap F = Some 0"
| "rarityOrderMap (Unmapped t) = None"

text \<open>The eight tiers from the lowest to the highest, as the data model orders them.\<close>

definition tiers :: "PokemonRarity list" where
  "tiers = [F, E, D, C, B, A, S, S_PLUS]"

section \<open>Text of numbers\<close>

text \<open>
  A template literal prints a number through its decimal digits, with a minus sign when it
  is negative. Balances and resale values are integers.
\<close>

function nat_digits :: "nat \<Rightarrow> string" where
  "nat_digits n =
     (if n < 10 then [char_of (48 + n)]
      else nat_digits (n div 10) @ [char_of (48 + n mod 10)])"
  by pat_completeness auto
termination
  by (relation "measure (\<lambda>n. n)") auto

declare nat_digits.simps [simp del]

definition number_text :: "int \<Rightarrow> string" where
  "number_text i = (if i < 0 then CHR ''-'' # nat_digits (nat (- i)) else nat_digits (nat i))"

text \<open>
  Modelled from the spec: the string values of the enum members are declared in ./types,
  which is not among the sources; the spec names the tiers F, E, D, C, B, A, S, S+.
\<close>

fun rarity_text :: "PokemonRarity \<Rightarrow> string" where
  "rarity_text S_PLUS = ''S+''"
| "rarity_text S = ''S''"
| "rarity_text A = ''A''"
| "rarity_text B = ''B''"
| "rarity_text C = ''C''"
| "rarity_text D = ''D''"
| "rarity_text E = ''E''"
| "rarity_text F = ''F''"
| "rarity_text (Unmapped t) = t"

section \<open>The component's state, the local store and the calls made\<close>

text \<open>
  The closure \<open>onConfirmAction\<close> that handleResellConfirmation stores in the state. Its
  free variables are \<open>pokemons\<close> and \<open>tokenBalance\<close>, constants of the render in which
  handleResellConfirmation was created, and the parameter \<open>pokemonId\<close>; the setters it
  calls are the same in every render. The closure is the triple of these three values.
\<close>

datatype confirm_closure = OnConfirmAction "Pokemon list" int string

text \<open>
  The values of the useState hooks. \<open>modalContent\<close> is a paragraph with two variable
  parts, the name given to handleResellConfirmation and the resale value shown.
\<close>

record app_state =
  pokemons :: "Pokemon list"
  tokenBalance :: int
  isLoading :: bool
  isGeneratingPokemon :: bool
  isGeneratingEvolutionForPokemonId :: "string option"
  message :: "AppMessage option"
  sortOrder :: string
  isModalOpen :: bool
  modalTitle :: string
  modalContent :: "(string \<times> int) option"
  modalOnConfirm :: "confirm_closure option"
  isModalConfirmLoading :: bool
  pokemonToResellId :: "string option"

definition initial_state :: app_state where
  "initial_state =
     \<lparr>pokemons = [], tokenBalance = 0, isLoading = True, isGeneratingPokemon = False,
      isGeneratingEvolutionForPokemonId = None, message = None, sortOrder = ''date-desc'',
      isModalOpen = False, modalTitle = [], modalContent = None, modalOnConfirm = None,
      isModalConfirmLoading = False, pokemonToResellId = None\<rparr>"

text \<open>
  Modelled from the spec: indexedDbService is imported from ./services/indexedDbService,
  which is not among the sources. The spec's local store holds the collection of creature
  records and one balance; addCreature adds a record, updateCreature replaces the record
  of the same identity by the full record given, setBalance replaces the balance.
\<close>

record store =
  db_pokemons :: "Pokemon list"
  db_balance :: int

text \<open>
  Every call that leaves the component, in the order made: the three store writes and the
  three calls of the generation client. The two calls of handleGenerateEvolution are logged
  with the values their prompts are built from (the creature's name and rarity, and the
  evolved name for the image), not with the prompt text.
\<close>

datatype call =
    UpdateTokenBalance int
  | AddPokemon Pokemon
  | UpdatePokemon Pokemon
  | GeneratePokemon
  | GenerateContent string PokemonRarity
  | GenerateImages string string PokemonRarity

fun is_store_write :: "call \<Rightarrow> bool" where
  "is_store_write (UpdateTokenBalance n) = True"
| "is_store_write (AddPokemon p) = True"
| "is_store_write (UpdatePokemon p) = True"
| "is_store_write _ = False"

fun is_client_call :: "call \<Rightarrow> bool" where
  "is_client_call GeneratePokemon = True"
| "is_client_call (GenerateContent n r) = True"
| "is_client_call (GenerateImages n e r) = True"
| "is_client_call _ = False"

record world =
  app :: app_state
  db :: store
  calls :: "call list"

text \<open>
  An awaited call either returns or throws. What it does is not decided by App.tsx, so
  each handler takes the outcome of each of its calls as an argument: for a store write
  \<open>None\<close> when it returns and \<open>Some e\<close> when it throws, \<open>e\<close> being the text that
  \<open>error instanceof Error ? error.message : String(error)\<close> gives for the thrown value.
  A write that throws leaves the store as it was.
\<close>

definition db_updateTokenBalance :: "string option \<Rightarrow> int \<Rightarrow> world \<Rightarrow> world" where
  "db_updateTokenBalance outcome n w =
     w\<lparr>calls := calls w @ [UpdateTokenBalance n],
       db := (case outcome of None \<Rightarrow> (db w)\<lparr>db_balance := n\<rparr> | Some e \<Rightarrow> db w)\<rparr>"

definition db_addPokemon :: "string option \<Rightarrow> Pokemon \<Rightarrow> world \<Rightarrow> world" where
  "db_addPokemon outcome p w =
     w\<lparr>calls := calls w @ [AddPokemon p],
       db := (case outcome of
                None \<Rightarrow> (db w)\<lparr>db_pokemons := db_pokemons (db w) @ [p]\<rparr>
              | Some e \<Rightarrow> db w)\<rparr>"

definition replace_by_id :: "Pokemon \<Rightarrow> Pokemon list \<Rightarrow> Pokemon list" where
  "replace_by_id updatedPokemon prevPokemons =
     map (\<lambda>p. if pokemon_id p = pokemon_id updatedPokemon then updatedPokemon else p)
       prevPokemons"

definition db_updatePokemon :: "string option \<Rightarrow> Pokemon \<Rightarrow> world \<Rightarrow> world" where
  "db_updatePokemon outcome p w =
     w\<lparr>calls := calls w @ [UpdatePokemon p],
       db := (case outcome of
                None \<Rightarrow> (db w)\<lparr>db_pokemons := replace_by_id p (db_pokemons (db w))\<rparr>
              | Some e \<Rightarrow> db w)\<rparr>"

definition client_call :: "call \<Rightarrow> world \<Rightarrow> world" where
  "client_call c w = w\<lparr>calls := calls w @ [c]\<rparr>"

subsection \<open>Setters\<close>

definition setPokemons :: "(Pokemon list \<Rightarrow> Pokemon list) \<Rightarrow> world \<Rightarrow> world" where
  "setPokemons f w = w\<lparr>app := (app w)\<lparr>pokemons := f (pokemons (app w))\<rparr>\<rparr>"

definition setTokenBalance :: "int \<Rightarrow> world \<Rightarrow> world" where
  "setTokenBalance n w = w\<lparr>app := (app w)\<lparr>tokenBalance := n\<rparr>\<rparr>"

definition setIsGeneratingPokemon :: "bool \<Rightarrow> world \<Rightarrow> world" where
  "setIsGeneratingPokemon b w = w\<lparr>app := (app w)\<lparr>isGeneratingPokemon := b\<rparr>\<rparr>"

definition setIsGeneratingEvolutionForPokemonId :: "string option \<Rightarrow> world \<Rightarrow> world" where
  "setIsGeneratingEvolutionForPokemonId i w =
     w\<lparr>app := (app w)\<lparr>isGeneratingEvolutionForPokemonId := i\<rparr>\<rparr>"

definition setIsModalConfirmLoading :: "bool \<Rightarrow> world \<Rightarrow> world" where
  "setIsModalConfirmLoading b w = w\<lparr>app := (app w)\<lparr>isModalConfirmLoading := b\<rparr>\<rparr>"

text \<open>
  showMessage sets the message; the timer that clears it five seconds later is not part of
  the model.
\<close>

definition showMessage :: "MessageType \<Rightarrow> string \<Rightarrow> world \<Rightarrow> world" where
  "showMessage t txt w = w\<lparr>app := (app w)\<lparr>message := Some \<lparr>mtype = t, mtext = txt\<rparr>\<rparr>\<rparr>"

definition closeModal :: "world \<Rightarrow> world" where
  "closeModal w =
     w\<lparr>app := (app w)\<lparr>isModalOpen := False, pokemonToResellId := None, modalTitle := [],
                       modalContent := None, modalOnConfirm := None,
                       isModalConfirmLoading := False\<rparr>\<rparr>"

section \<open>handleGeneratePokemon\<close>

text \<open>
  The outcomes of the calls of handleGeneratePokemon, in the order of the source: the write
  of the decremented balance, generatePokemon(), addPokemon(newPokemon), and the write of
  the reverted balance in the catch block.
\<close>

record generate_outcomes =
  debit_write :: "string option"
  generated :: "string + Pokemon"
  add_write :: "string option"
  refund_write :: "string option"

text \<open>
  The catch block. When its own write throws, the notification after it is not reached
  and the promise of the handler is rejected; nothing observes that promise.
\<close>

definition generate_catch :: "generate_outcomes \<Rightarrow> int \<Rightarrow> string \<Rightarrow> world \<Rightarrow> world" where
  "generate_catch oc originalTokenBalance err w =
     (let revertedBalance = originalTokenBalance;
          w1 = setTokenBalance revertedBalance w;
          w2 = db_updateTokenBalance (refund_write oc) revertedBalance w1
      in case refund_write oc of
           Some e \<Rightarrow> w2
         | None \<Rightarrow>
             showMessage Error
               (''Failed to generate '' @ Pokemon_word @ '': '' @ err @ ''. Tokens refunded.'')
               w2)"

definition generate_finally :: "world \<Rightarrow> world" where
  "generate_finally w = setIsGeneratingPokemon False w"

text \<open>
  The handler is an async function: it is suspended at each await and other handlers can
  run meanwhile. \<open>generate_begin\<close> is the handler from the click up to the call of
  generatePokemon(): it either ends there (\<open>Inl\<close>: the balance is too low, or the first
  write threw and the catch and finally blocks ran) or is suspended on the generation
  client (\<open>Inr\<close>), holding its local constant \<open>originalTokenBalance\<close>.
  \<open>generate_resume\<close> is the rest, run when the client has answered.
\<close>

definition generate_begin :: "generate_outcomes \<Rightarrow> world \<Rightarrow> world + int \<times> world" where
  "generate_begin oc w =
     (if tokenBalance (app w) < GENERATION_COST then
        Inl (showMessage Warning
               (''You need '' @ number_text GENERATION_COST @ '' tokens to generate a ''
                @ Pokemon_word @ ''. Current balance: '' @ number_text (tokenBalance (app w))
                @ ''.'') w)
      else
        (let w1 = setIsGeneratingPokemon True w;
             originalTokenBalance = tokenBalance (app w);
             newBalanceAfterDeduction = originalTokenBalance - GENERATION_COST;
             w2 = setTokenBalance newBalanceAfterDeduction w1;
             w3 = db_updateTokenBalance (debit_write oc) newBalanceAfterDeduction w2
         in case debit_write oc of
              Some e \<Rightarrow> Inl (generate_finally (generate_catch oc originalTokenBalance e w3))
            | None \<Rightarrow> Inr (originalTokenBalance, client_call GeneratePokemon w3)))"

definition generate_resume :: "generate_outcomes \<Rightarrow> int \<Rightarrow> world \<Rightarrow> world" where
  "generate_resume oc originalTokenBalance w =
     generate_finally
       (case generated oc of
          Inl e \<Rightarrow> generate_catch oc originalTokenBalance e w
        | Inr newPokemon \<Rightarrow>
            (let w1 = db_addPokemon (add_write oc) newPokemon w
             in case add_write oc of
                  Some e \<Rightarrow> generate_catch oc originalTokenBalance e w1
                | None \<Rightarrow>
                    showMessage Success
                      (''Awesome! You generated a new '' @ Pokemon_word @ '': ''
                       @ name newPokemon @ '' ('' @ rarity_text (rarity newPokemon) @ '')!'')
                      (setPokemons (\<lambda>prevPokemons. newPokemon # prevPokemons) w1)))"

text \<open>The whole workflow, when nothing else runs while it is suspended.\<close>

definition handleGeneratePokemon :: "generate_outcomes \<Rightarrow> world \<Rightarrow> world" where
  "handleGeneratePokemon oc w =
     (case generate_begin oc w of
        Inl w' \<Rightarrow> w'
      | Inr (originalTokenBalance, w') \<Rightarrow> generate_resume oc originalTokenBalance w')"

section \<open>handleGenerateEvolution\<close>

text \<open>
  \<open>String.prototype.trim\<close> removes white space and line terminators at both ends.
\<close>

definition is_space :: "char \<Rightarrow> bool" where
  "is_space c \<longleftrightarrow> c \<in> set [CHR 0x09, CHR 0x0A, CHR 0x0B, CHR 0x0C, CHR 0x0D, CHR 0x20, CHR 0xA0]"

definition trim :: "string \<Rightarrow> string" where
  "trim s = rev (dropWhile is_space (rev (dropWhile is_space s)))"

text \<open>
  The outcomes of the calls of handleGenerateEvolution: generateContent gives the text of
  the response or throws; generateImages gives the image bytes of the generated images or
  throws; \<open>new Date().toISOString()\<close>; the write of the updated record. A throw while
  the client is constructed is a throw of the first call.
\<close>

record evolution_outcomes =
  text_call :: "string + string"
  image_call :: "string + string list"
  now_iso :: string
  update_write :: "string option"

text \<open>What reading \<open>generatedImages[0].image\<close> throws when there is no image.\<close>

definition no_image_error :: string where
  "no_image_error = ''Cannot read properties of undefined (reading image)''"

text \<open>
  The try block: the world when it ends, and the text of the thrown value if it threw.
  \<open>json_parse\<close> is \<open>JSON.parse\<close> at the type the source declares for its result: the
  three strings evolutionName, evolutionDescription and evolutionStats, or \<open>Inl\<close> the
  text of the parse error.
\<close>

definition evolution_try ::
  "(string \<Rightarrow> string + string \<times> string \<times> string) \<Rightarrow> evolution_outcomes \<Rightarrow> Pokemon \<Rightarrow> world
     \<Rightarrow> world \<times> string option" where
  "evolution_try json_parse oc pokemon w =
     (let w1 = client_call (GenerateContent (name pokemon) (rarity pokemon)) w
      in case text_call oc of
           Inl e \<Rightarrow> (w1, Some e)
         | Inr textResponse \<Rightarrow>
             (case json_parse (trim textResponse) of
                Inl parseError \<Rightarrow>
                  (w1, Some (''Failed to parse evolution text response from AI: '' @ parseError
                             @ ''. Raw response: '' @ textResponse))
              | Inr (evoName, evoDescription, evoStats) \<Rightarrow>
                  (let w2 = client_call
                              (GenerateImages (name pokemon) evoName (rarity pokemon)) w1
                   in case image_call oc of
                        Inl e \<Rightarrow> (w2, Some e)
                      | Inr [] \<Rightarrow> (w2, Some no_image_error)
                      | Inr (evolutionImage # others) \<Rightarrow>
                          (let newEvolution =
                                 \<lparr>evolutionName = evoName,
                                  evolutionDescription = evoDescription,
                                  evolutionStats = evoStats,
                                  evolutionImageBase64 = evolutionImage,
                                  evolution_generatedAt = now_iso oc\<rparr>;
                               updatedPokemon = pokemon\<lparr>evolution := Some newEvolution\<rparr>;
                               w3 = db_updatePokemon (update_write oc) updatedPokemon w2
                           in case update_write oc of
                                Some e \<Rightarrow> (w3, Some e)
                              | None \<Rightarrow>
                                  (showMessage Success
                                     (''Evolution created for '' @ name pokemon @ ''! Meet ''
                                      @ evoName @ ''!'')
                                     (setPokemons (replace_by_id updatedPokemon) w3),
                                   None)))))"

definition handleGenerateEvolution ::
  "(string \<Rightarrow> string + string \<times> string \<times> string) \<Rightarrow> evolution_outcomes \<Rightarrow> Pokemon \<Rightarrow> world
     \<Rightarrow> world" where
  "handleGenerateEvolution json_parse oc pokemon w =
     (let w0 = setIsGeneratingEvolutionForPokemonId (Some (pokemon_id pokemon)) w;
          (w1, thrown) = evolution_try json_parse oc pokemon w0;
          w2 = (case thrown of
                  None \<Rightarrow> w1
                | Some err \<Rightarrow>
                    showMessage Error
                      (''Failed to generate evolution for '' @ name pokemon @ '': '' @ err
                       @ ''. Please check the console for more details.'') w1)
      in setIsGeneratingEvolutionForPokemonId None w2)"

section \<open>The resell workflow and the confirmation dialog\<close>

text \<open>
  handleResellConfirmation is created anew by every render, and the Resell button calls the
  one of the render on screen: \<open>pokemons\<close> and \<open>tokenBalance\<close> in its body are the
  values of the state at the click, and they are the values the closure it stores keeps.
\<close>

definition handleResellConfirmation :: "string \<Rightarrow> string \<Rightarrow> world \<Rightarrow> world" where
  "handleResellConfirmation pokemonId pokemonName w =
     (case find (\<lambda>p. pokemon_id p = pokemonId) (pokemons (app w)) of
        None \<Rightarrow>
          showMessage Error (''Could not find the '' @ Pokemon_word @ '' to resell.'') w
      | Some pokemonToConfirm \<Rightarrow>
          (let resellValue = getRarityResellValue (rarity pokemonToConfirm);
               onConfirmAction =
                 OnConfirmAction (pokemons (app w)) (tokenBalance (app w)) pokemonId
           in w\<lparr>app := (app w)\<lparr>pokemonToResellId := Some pokemonId,
                                modalTitle := ''Resell '' @ Pokemon_word,
                                modalContent := Some (pokemonName, resellValue),
                                modalOnConfirm := Some onConfirmAction,
                                isModalOpen := True\<rparr>\<rparr>))"

text \<open>
  The outcomes of the two store writes of the confirm action: updatePokemon of the record
  with status RESOLD, then updateTokenBalance of the new balance.
\<close>

record resell_outcomes =
  status_write :: "string option"
  credit_write :: "string option"

text \<open>
  The try block of the confirm action. \<open>pokemons_c\<close> and \<open>tokenBalance_c\<close> are the
  closure's \<open>pokemons\<close> and \<open>tokenBalance\<close>; \<open>w\<close> is the world when the action runs,
  which the functional update of setPokemons reads.
\<close>

definition resell_try ::
  "Pokemon list \<Rightarrow> int \<Rightarrow> string \<Rightarrow> resell_outcomes \<Rightarrow> world \<Rightarrow> world \<times> string option" where
  "resell_try pokemons_c tokenBalance_c pokemonId oc w =
     (case find (\<lambda>p. pokemon_id p = pokemonId) pokemons_c of
        None \<Rightarrow> (w, None)
      | Some pokemonToResell \<Rightarrow>
          (let updatedPokemon = pokemonToResell\<lparr>status := RESOLD\<rparr>;
               w1 = db_updatePokemon (status_write oc) updatedPokemon w
           in case status_write oc of
                Some e \<Rightarrow> (w1, Some e)
              | None \<Rightarrow>
                  (let currentResellValue = getRarityResellValue (rarity pokemonToResell);
                       newBalance = tokenBalance_c + currentResellValue;
                       w2 = db_updateTokenBalance (credit_write oc) newBalance w1
                   in case credit_write oc of
                        Some e \<Rightarrow> (w2, Some e)
                      | None \<Rightarrow>
                          (showMessage Success
                             (name pokemonToResell @ '' resold successfully! You gained ''
                              @ number_text currentResellValue @ '' tokens.'')
                             (setTokenBalance newBalance
                                (setPokemons (replace_by_id updatedPokemon) w2)),
                           None))))"

definition onConfirmAction ::
  "Pokemon list \<Rightarrow> int \<Rightarrow> string \<Rightarrow> resell_outcomes \<Rightarrow> world \<Rightarrow> world" where
  "onConfirmAction pokemons_c tokenBalance_c pokemonId oc w =
     (let w0 = setIsModalConfirmLoading True w;
          (w1, thrown) = resell_try pokemons_c tokenBalance_c pokemonId oc w0;
          w2 = (case thrown of
                  None \<Rightarrow> w1
                | Some err \<Rightarrow>
                    showMessage Error (''Failed to resell '' @ Pokemon_word @ '': '' @ err) w1)
      in closeModal (setIsModalConfirmLoading False w2))"

text \<open>
  Modelled from the spec: the Modal component is imported from ./components/Modal, which
  is not among the sources. It is given \<open>onConfirm={modalOnConfirm}\<close>; the spec's
  confirmation gate holds a confirm action, which its confirm control runs.
\<close>

definition modal_confirm :: "resell_outcomes \<Rightarrow> world \<Rightarrow> world" where
  "modal_confirm oc w =
     (case modalOnConfirm (app w) of
        None \<Rightarrow> w
      | Some (OnConfirmAction pokemons_c tokenBalance_c pokemonId) \<Rightarrow>
          onConfirmAction pokemons_c tokenBalance_c pokemonId oc w)"

section \<open>sortedPokemons\<close>














section \<open>Concrete inputs\<close>

text \<open>Records, worlds and call outcomes on which the handlers are run below.\<close>

definition abra :: Pokemon where
  "abra = \<lparr>pokemon_id = ''p1'', name = ''Abra'', rarity = A, status = OWNED,
            generatedAt = ''2024-03-01T10:00:00.000Z'', imageBase64 = ''iVBORw0KGgo'',
            evolution = None\<rparr>"


definition mewtwo :: Pokemon where
  "mewtwo = \<lparr>pokemon_id = ''p3'', name = ''Mewtwo'', rarity = S_PLUS, status = OWNED,
              generatedAt = ''2024-03-04T10:00:00.000Z'', imageBase64 = ''iVBORw0KGgo'',
              evolution = None\<rparr>"


definition lab :: world where
  "lab = \<lparr>app = initial_state\<lparr>pokemons := [abra], tokenBalance := 20, isLoading := False\<rparr>,
           db = \<lparr>db_pokemons = [abra], db_balance = 20\<rparr>, calls = []\<rparr>"

definition poor_lab :: world where
  "poor_lab = \<lparr>app = initial_state\<lparr>pokemons := [abra], tokenBalance := 9, isLoading := False\<rparr>,
                db = \<lparr>db_pokemons = [abra], db_balance = 9\<rparr>, calls = []\<rparr>"

definition all_succeed :: generate_outcomes where
  "all_succeed = \<lparr>debit_write = None, generated = Inr mewtwo, add_write = None,
                   refund_write = None\<rparr>"

definition client_fails :: generate_outcomes where
  "client_fails = \<lparr>debit_write = None, generated = Inl ''503 Service Unavailable'',
                    add_write = None, refund_write = None\<rparr>"

definition store_fails :: generate_outcomes where
  "store_fails = \<lparr>debit_write = None, generated = Inr mewtwo,
                   add_write = Some ''QuotaExceededError'',
                   refund_write = Some ''QuotaExceededError''\<rparr>"

definition writes_ok :: resell_outcomes where
  "writes_ok = \<lparr>status_write = None, credit_write = None\<rparr>"

text \<open>
  An instance of \<open>JSON.parse\<close> at the result type of the source, enough for two
  responses: it reads one object and rejects every other text.
\<close>

definition kadabra_json :: string where
  \<open>kadabra_json =
     ''{"evolutionName":"Kadabra","evolutionDescription":"Bends spoons","evolutionStats":"HP 40"}''\<close>

definition parse_kadabra :: "string \<Rightarrow> string + string \<times> string \<times> string" where
  "parse_kadabra t =
     (if t = kadabra_json then Inr (''Kadabra'', ''Bends spoons'', ''HP 40'')
      else Inl ''SyntaxError: Unexpected token'')"

definition evolution_ok :: evolution_outcomes where
  "evolution_ok = \<lparr>text_call = Inr (kadabra_json @ [CHR 0x0A]), image_call = Inr [''iVBORw0KEvo''],
                    now_iso = ''2024-03-05T09:30:00.000Z'', update_write = None\<rparr>"

definition evolution_garbled :: evolution_outcomes where
  "evolution_garbled = \<lparr>text_call = Inr ''Sorry, I cannot help'', image_call = Inr [''iVBORw0KEvo''],
                         now_iso = ''2024-03-05T09:30:00.000Z'', update_write = None\<rparr>"

text \<open>
  The run of C1: a generation is started with 20 tokens and is suspended on the generation
  client; the Resell button of the one creature is clicked; the client then fails and the
  generation refunds; the resell is confirmed. The first world is the one in which the
  confirmation is clicked, the second the one the confirm action leaves.
\<close>

definition resell_opened_during_generation :: "world \<times> world" where
  "resell_opened_during_generation =
     (case generate_begin client_fails lab of
        Inl w \<Rightarrow> (w, w)
      | Inr (originalTokenBalance, w1) \<Rightarrow>
          (let w2 = handleResellConfirmation ''p1'' ''Abra'' w1;
               w3 = generate_resume client_fails originalTokenBalance w2
           in (w3, modal_confirm writes_ok w3)))"






section \<open>Properties\<close>

text \<open>
  C5: on each of the eight rarity tiers getRarityResellValue returns the value of the fixed
  table S+:25, S:15, A:10, B:5, C:4, D:3, E:2, F:1, and it returns 1 on every value outside
  the enum; rarityOrderMap gives the tiers, taken from F up to S+, the ranks 0, 1, ..., 7 in
  this order, a strictly increasing sequence.
\<close>

theorem economy_tables:
  "map getRarityResellValue tiers = [1, 2, 3, 4, 5, 10, 15, 25]
   \<and> getRarityResellValue (Unmapped t) = 1
   \<and> map rarityOrderMap tiers = map Some [0, 1, 2, 3, 4, 5, 6, 7]
   \<and> sorted_wrt (<) (map (the \<circ> rarityOrderMap) tiers)"
  by (simp add: tiers_def)

subsection \<open>Generation\<close>

lemmas world_ops =
  db_updateTokenBalance_def db_addPokemon_def db_updatePokemon_def client_call_def
  setPokemons_def setTokenBalance_def setIsGeneratingPokemon_def
  setIsGeneratingEvolutionForPokemonId_def setIsModalConfirmLoading_def showMessage_def
  closeModal_def

lemmas generate_defs =
  handleGeneratePokemon_def generate_begin_def generate_resume_def generate_finally_def
  generate_catch_def GENERATION_COST_def

lemma number_text_10: "number_text 10 = ''10''"
  by code_simp

text \<open>
  C4: when the balance is below the generation cost of 10, handleGeneratePokemon only
  shows a warning: the world it leaves is the one it found with the message replaced by
  the warning, so the collection, the balance and the flags are as before, the store is
  untouched, and no call (no store write, no call of the generation client) is made.
\<close>

theorem generate_insufficient_balance:
  assumes "tokenBalance (app w) < 10"
  shows "handleGeneratePokemon oc w =
           w\<lparr>app := (app w)\<lparr>message := Some \<lparr>mtype = Warning,
              mtext = ''You need 10 tokens to generate a '' @ Pokemon_word
                      @ ''. Current balance: '' @ number_text (tokenBalance (app w))
                      @ ''.''\<rparr>\<rparr>\<rparr>
    \<and> calls (handleGeneratePokemon oc w) = calls w
    \<and> filter is_store_write (calls (handleGeneratePokemon oc w)) = filter is_store_write (calls w)
    \<and> filter is_client_call (calls (handleGeneratePokemon oc w)) = filter is_client_call (calls w)
    \<and> db (handleGeneratePokemon oc w) = db w
    \<and> pokemons (app (handleGeneratePokemon oc w)) = pokemons (app w)
    \<and> tokenBalance (app (handleGeneratePokemon oc w)) = tokenBalance (app w)"
  using assms
  by (simp add: handleGeneratePokemon_def generate_begin_def GENERATION_COST_def
        showMessage_def number_text_10)

theorem generate_insufficient_balance_witness:
  "tokenBalance (app poor_lab) < 10
   \<and> message (app (handleGeneratePokemon all_succeed poor_lab)) =
       Some \<lparr>mtype = Warning,
             mtext = ''You need 10 tokens to generate a '' @ Pokemon_word
                     @ ''. Current balance: 9.''\<rparr>
   \<and> calls (handleGeneratePokemon all_succeed poor_lab) = []
   \<and> db (handleGeneratePokemon all_succeed poor_lab) = \<lparr>db_pokemons = [abra], db_balance = 9\<rparr>
   \<and> pokemons (app (handleGeneratePokemon all_succeed poor_lab)) = [abra]
   \<and> tokenBalance (app (handleGeneratePokemon all_succeed poor_lab)) = 9"
proof -
  have low: "tokenBalance (app poor_lab) < 10"
    by (simp add: poor_lab_def)
  have nine: "number_text 9 = ''9''"
    by code_simp
  have facts: "tokenBalance (app poor_lab) = 9" "calls poor_lab = []"
    "db poor_lab = \<lparr>db_pokemons = [abra], db_balance = 9\<rparr>" "pokemons (app poor_lab) = [abra]"
    by (simp_all add: poor_lab_def)
  show ?thesis
    using generate_insufficient_balance[OF low, of all_succeed] low nine facts by simp
qed

text \<open>
  C3: when the balance is at least 10 and the three calls return, handleGeneratePokemon
  leaves the balance lower by exactly 10 and the collection with the one new record in
  front; it makes exactly three calls, in this order: the write of the decremented balance,
  the call of the generation client, the write of the new record. The store writes are
  thus two, the balance and then the record, and the decremented balance is written before
  the client is called.
\<close>

theorem generate_success:
  assumes "10 \<le> tokenBalance (app w)"
    and "debit_write oc = None" and "generated oc = Inr newPokemon" and "add_write oc = None"
  shows "tokenBalance (app (handleGeneratePokemon oc w)) = tokenBalance (app w) - 10
    \<and> pokemons (app (handleGeneratePokemon oc w)) = newPokemon # pokemons (app w)
    \<and> calls (handleGeneratePokemon oc w) =
        calls w @ [UpdateTokenBalance (tokenBalance (app w) - 10), GeneratePokemon,
                   AddPokemon newPokemon]
    \<and> filter is_store_write (calls (handleGeneratePokemon oc w)) =
        filter is_store_write (calls w)
        @ [UpdateTokenBalance (tokenBalance (app w) - 10), AddPokemon newPokemon]
    \<and> db (handleGeneratePokemon oc w) =
        \<lparr>db_pokemons = db_pokemons (db w) @ [newPokemon],
         db_balance = tokenBalance (app w) - 10\<rparr>"
  using assms
  by (simp add: generate_defs world_ops Let_def)

theorem generate_success_witness:
  "10 \<le> tokenBalance (app lab) \<and> debit_write all_succeed = None
   \<and> generated all_succeed = Inr mewtwo \<and> add_write all_succeed = None
   \<and> tokenBalance (app (handleGeneratePokemon all_succeed lab)) = 10
   \<and> pokemons (app (handleGeneratePokemon all_succeed lab)) = [mewtwo, abra]
   \<and> calls (handleGeneratePokemon all_succeed lab) =
       [UpdateTokenBalance 10, GeneratePokemon, AddPokemon mewtwo]
   \<and> filter is_store_write (calls (handleGeneratePokemon all_succeed lab)) =
       [UpdateTokenBalance 10, AddPokemon mewtwo]
   \<and> db (handleGeneratePokemon all_succeed lab) =
       \<lparr>db_pokemons = [abra, mewtwo], db_balance = 10\<rparr>"
proof -
  have enough: "10 \<le> tokenBalance (app lab)"
    by (simp add: lab_def)
  have oc: "debit_write all_succeed = None" "generated all_succeed = Inr mewtwo"
    "add_write all_succeed = None"
    by (simp_all add: all_succeed_def)
  have facts: "tokenBalance (app lab) = 20" "calls lab = []" "pokemons (app lab) = [abra]"
    "db_pokemons (db lab) = [abra]"
    by (simp_all add: lab_def)
  show ?thesis
    using generate_success[OF enough oc] enough oc facts by simp
qed

text \<open>
  C2, as the claim states it, fails: the record persistence throws, the write of the
  reverted balance in the catch block throws as well, and the handler ends with the store
  still holding the decremented balance 10 (the balance before the debit was 20) and with
  no notification shown. The in-memory balance is back at 20.
\<close>

theorem generate_refund_write_fails:
  "tokenBalance (app lab) = 20
   \<and> debit_write store_fails = None
   \<and> generated store_fails = Inr mewtwo \<and> add_write store_fails = Some ''QuotaExceededError''
   \<and> tokenBalance (app (handleGeneratePokemon store_fails lab)) = 20
   \<and> db_balance (db (handleGeneratePokemon store_fails lab)) = 10
   \<and> message (app (handleGeneratePokemon store_fails lab)) = None"
  by (simp add: generate_defs world_ops Let_def lab_def store_fails_def initial_state_def)

text \<open>
  C2, amended: when the debit was written and then the generation client call or the
  persistence of the new record throws, the in-memory balance is back at its value before
  the debit and the in-memory collection is unchanged; and if the write of the reverted
  balance returns, the store holds the balance of before the debit and an error
  notification is shown whose text ends with "Tokens refunded.". The last call the handler
  makes is the write of the balance of before the debit.
\<close>

theorem generate_failure_refund:
  assumes "10 \<le> tokenBalance (app w)" and "debit_write oc = None"
    and "generated oc = Inl e \<or> (generated oc = Inr newPokemon \<and> add_write oc = Some e)"
  shows "tokenBalance (app (handleGeneratePokemon oc w)) = tokenBalance (app w)
    \<and> pokemons (app (handleGeneratePokemon oc w)) = pokemons (app w)
    \<and> last (calls (handleGeneratePokemon oc w)) = UpdateTokenBalance (tokenBalance (app w))
    \<and> (refund_write oc = None \<longrightarrow>
          db_balance (db (handleGeneratePokemon oc w)) = tokenBalance (app w)
        \<and> message (app (handleGeneratePokemon oc w)) =
            Some \<lparr>mtype = Error,
                  mtext = ''Failed to generate '' @ Pokemon_word @ '': '' @ e
                          @ ''. Tokens refunded.''\<rparr>)"
  using assms
  by (auto simp add: generate_defs world_ops Let_def split: option.splits)

theorem generate_failure_refund_witness:
  "10 \<le> tokenBalance (app lab) \<and> debit_write client_fails = None
   \<and> generated client_fails = Inl ''503 Service Unavailable''
   \<and> refund_write client_fails = None
   \<and> tokenBalance (app (handleGeneratePokemon client_fails lab)) = 20
   \<and> pokemons (app (handleGeneratePokemon client_fails lab)) = [abra]
   \<and> last (calls (handleGeneratePokemon client_fails lab)) = UpdateTokenBalance 20
   \<and> db_balance (db (handleGeneratePokemon client_fails lab)) = 20
   \<and> message (app (handleGeneratePokemon client_fails lab)) =
       Some \<lparr>mtype = Error,
             mtext = ''Failed to generate '' @ Pokemon_word
                     @ '': 503 Service Unavailable. Tokens refunded.''\<rparr>"
proof -
  have enough: "10 \<le> tokenBalance (app lab)"
    by (simp add: lab_def)
  have debit: "debit_write client_fails = None"
    and refund: "refund_write client_fails = None"
    and thrown: "generated client_fails = Inl ''503 Service Unavailable''"
    by (simp_all add: client_fails_def)
  have failure: "generated client_fails = Inl ''503 Service Unavailable''
      \<or> (generated client_fails = Inr mewtwo
          \<and> add_write client_fails = Some ''503 Service Unavailable'')"
    using thrown by simp
  have facts: "tokenBalance (app lab) = 20" "pokemons (app lab) = [abra]"
    by (simp_all add: lab_def)
  show ?thesis
    using generate_failure_refund[OF enough debit failure] enough debit refund thrown facts
    by simp
qed

subsection \<open>Evolution\<close>

lemmas evolution_defs = handleGenerateEvolution_def evolution_try_def

lemma trim_garbled: "trim ''Sorry, I cannot help'' = ''Sorry, I cannot help''"
  by code_simp

lemma trim_kadabra: "trim (kadabra_json @ [CHR 0x0A]) = kadabra_json"
  by code_simp

text \<open>
  C6: when the text call returns a response that JSON.parse rejects, handleGenerateEvolution
  shows an error notification whose text holds the raw response text (after
  "Raw response: "), leaves the in-memory collection and the store as they were, so that no
  evolution is attached to any record, and makes no call but the text call: no store write
  and no image call.
\<close>

theorem evolution_parse_failure:
  assumes "text_call oc = Inr raw" and "json_parse (trim raw) = Inl parseError"
  shows "message (app (handleGenerateEvolution json_parse oc pokemon w)) =
           Some \<lparr>mtype = Error,
                 mtext = ''Failed to generate evolution for '' @ name pokemon
                   @ '': Failed to parse evolution text response from AI: '' @ parseError
                   @ ''. Raw response: '' @ raw
                   @ ''. Please check the console for more details.''\<rparr>
    \<and> pokemons (app (handleGenerateEvolution json_parse oc pokemon w)) = pokemons (app w)
    \<and> db (handleGenerateEvolution json_parse oc pokemon w) = db w
    \<and> calls (handleGenerateEvolution json_parse oc pokemon w) =
        calls w @ [GenerateContent (name pokemon) (rarity pokemon)]
    \<and> filter is_store_write (calls (handleGenerateEvolution json_parse oc pokemon w)) =
        filter is_store_write (calls w)"
  using assms
  by (simp add: evolution_defs world_ops Let_def)

theorem evolution_parse_failure_witness:
  "text_call evolution_garbled = Inr ''Sorry, I cannot help''
   \<and> parse_kadabra (trim ''Sorry, I cannot help'') = Inl ''SyntaxError: Unexpected token''
   \<and> message (app (handleGenerateEvolution parse_kadabra evolution_garbled abra lab)) =
       Some \<lparr>mtype = Error,
             mtext = ''Failed to generate evolution for Abra: Failed to parse evolution text response from AI: SyntaxError: Unexpected token. Raw response: Sorry, I cannot help. Please check the console for more details.''\<rparr>
   \<and> pokemons (app (handleGenerateEvolution parse_kadabra evolution_garbled abra lab)) = [abra]
   \<and> db (handleGenerateEvolution parse_kadabra evolution_garbled abra lab) = db lab
   \<and> calls (handleGenerateEvolution parse_kadabra evolution_garbled abra lab) =
       [GenerateContent ''Abra'' A]"
proof -
  have response: "text_call evolution_garbled = Inr ''Sorry, I cannot help''"
    by (simp add: evolution_garbled_def)
  have rejected: "parse_kadabra (trim ''Sorry, I cannot help'') = Inl ''SyntaxError: Unexpected token''"
    by (simp add: trim_garbled parse_kadabra_def kadabra_json_def)
  have facts: "pokemons (app lab) = [abra]" "calls lab = []" "name abra = ''Abra''"
    "rarity abra = A"
    by (simp_all add: lab_def abra_def)
  show ?thesis
    using evolution_parse_failure[where json_parse = parse_kadabra and pokemon = abra
        and w = lab, OF response rejected] response rejected facts
    by simp
qed

text \<open>
  C7: when the text call, the parse, the image call and the store write all succeed,
  handleGenerateEvolution replaces, in the in-memory collection, every record of the
  creature's identity by the creature given to it with its evolution field set to the
  record made of the three parsed text fields, the first returned image and the timestamp
  (whatever the evolution field held before); it makes exactly one store write, the update
  of that record, after the text call and the image call, and it leaves the in-memory
  balance and the stored balance as they were.
\<close>

theorem evolution_success:
  assumes "text_call oc = Inr raw"
    and "json_parse (trim raw) = Inr (evoName, evoDescription, evoStats)"
    and "image_call oc = Inr (evolutionImage # others)"
    and "update_write oc = None"
    and "updatedPokemon = pokemon\<lparr>evolution := Some
           \<lparr>evolutionName = evoName, evolutionDescription = evoDescription,
            evolutionStats = evoStats, evolutionImageBase64 = evolutionImage,
            evolution_generatedAt = now_iso oc\<rparr>\<rparr>"
  shows "pokemons (app (handleGenerateEvolution json_parse oc pokemon w)) =
           map (\<lambda>p. if pokemon_id p = pokemon_id pokemon then updatedPokemon else p)
             (pokemons (app w))
    \<and> calls (handleGenerateEvolution json_parse oc pokemon w) =
        calls w @ [GenerateContent (name pokemon) (rarity pokemon),
                   GenerateImages (name pokemon) evoName (rarity pokemon),
                   UpdatePokemon updatedPokemon]
    \<and> filter is_store_write (calls (handleGenerateEvolution json_parse oc pokemon w)) =
        filter is_store_write (calls w) @ [UpdatePokemon updatedPokemon]
    \<and> tokenBalance (app (handleGenerateEvolution json_parse oc pokemon w)) = tokenBalance (app w)
    \<and> db_balance (db (handleGenerateEvolution json_parse oc pokemon w)) = db_balance (db w)"
  using assms
  by (simp add: evolution_defs world_ops replace_by_id_def Let_def)

theorem evolution_success_witness:
  "text_call evolution_ok = Inr (kadabra_json @ [CHR 0x0A])
   \<and> parse_kadabra (trim (kadabra_json @ [CHR 0x0A])) = Inr (''Kadabra'', ''Bends spoons'', ''HP 40'')
   \<and> image_call evolution_ok = Inr [''iVBORw0KEvo'']
   \<and> update_write evolution_ok = None
   \<and> pokemons (app (handleGenerateEvolution parse_kadabra evolution_ok abra lab)) =
       [abra\<lparr>evolution := Some
           \<lparr>evolutionName = ''Kadabra'', evolutionDescription = ''Bends spoons'',
            evolutionStats = ''HP 40'', evolutionImageBase64 = ''iVBORw0KEvo'',
            evolution_generatedAt = ''2024-03-05T09:30:00.000Z''\<rparr>\<rparr>]
   \<and> filter is_store_write (calls (handleGenerateEvolution parse_kadabra evolution_ok abra lab)) =
       [UpdatePokemon (abra\<lparr>evolution := Some
           \<lparr>evolutionName = ''Kadabra'', evolutionDescription = ''Bends spoons'',
            evolutionStats = ''HP 40'', evolutionImageBase64 = ''iVBORw0KEvo'',
            evolution_generatedAt = ''2024-03-05T09:30:00.000Z''\<rparr>\<rparr>)]
   \<and> tokenBalance (app (handleGenerateEvolution parse_kadabra evolution_ok abra lab)) = 20
   \<and> db_balance (db (handleGenerateEvolution parse_kadabra evolution_ok abra lab)) = 20"
proof -
  have response: "text_call evolution_ok = Inr (kadabra_json @ [CHR 0x0A])"
    and image: "image_call evolution_ok = Inr [''iVBORw0KEvo'']"
    and written: "update_write evolution_ok = None"
    and now: "now_iso evolution_ok = ''2024-03-05T09:30:00.000Z''"
    by (simp_all add: evolution_ok_def)
  have parsed: "parse_kadabra (trim (kadabra_json @ [CHR 0x0A]))
      = Inr (''Kadabra'', ''Bends spoons'', ''HP 40'')"
    by (simp add: trim_kadabra parse_kadabra_def)
  have facts: "pokemons (app lab) = [abra]" "calls lab = []" "tokenBalance (app lab) = 20"
    "db_balance (db lab) = 20"
    by (simp_all add: lab_def)
  show ?thesis
    using evolution_success[where json_parse = parse_kadabra and pokemon = abra and w = lab,
        OF response parsed image written refl]
      response parsed image written now facts
    by simp
qed

subsection \<open>Resell\<close>

lemmas resell_defs = onConfirmAction_def resell_try_def

lemma find_Some_id: "find (\<lambda>p. pokemon_id p = i) ps = Some p \<Longrightarrow> pokemon_id p = i"
  by (induction ps) (auto split: if_splits)

lemma confirm_runs_closure:
  assumes "find (\<lambda>p. pokemon_id p = pokemonId) (pokemons (app w)) = Some p"
  shows "modal_confirm oc (handleResellConfirmation pokemonId pokemonName w) =
           onConfirmAction (pokemons (app w)) (tokenBalance (app w)) pokemonId oc
             (handleResellConfirmation pokemonId pokemonName w)"
  using assms by (simp add: modal_confirm_def handleResellConfirmation_def Let_def)

lemma confirm_clears_flags:
  "\<not> isModalConfirmLoading (app (onConfirmAction pokemons_c tokenBalance_c i oc w))
   \<and> \<not> isModalOpen (app (onConfirmAction pokemons_c tokenBalance_c i oc w))"
  by (simp add: onConfirmAction_def closeModal_def Let_def split: prod.splits)

text \<open>
  The confirmation that follows the click on Resell with nothing in between. The click
  stores the confirm action with the collection and the balance of that moment. If both
  store writes return, the balance is higher by the resale value 10 of rarity A, the
  creature's record in the collection is the record with status RESOLD, and the calls made
  are the update of the record and then the write of the balance. If one of the writes
  throws, neither the in-memory collection nor the in-memory balance changes, and when it
  is the first one the balance write is not made. In every case, and for any confirm action
  run in any world, the busy flag is false and the dialog is closed when the action has
  settled.
\<close>

theorem resell_confirm:
  assumes "find (\<lambda>p. pokemon_id p = pokemonId) (pokemons (app w)) = Some p"
    and "rarity p = A"
  shows "modalOnConfirm (app (handleResellConfirmation pokemonId pokemonName w))
           = Some (OnConfirmAction (pokemons (app w)) (tokenBalance (app w)) pokemonId)
    \<and> (status_write oc = None \<and> credit_write oc = None \<longrightarrow>
            tokenBalance (app (modal_confirm oc (handleResellConfirmation pokemonId pokemonName w)))
              = tokenBalance (app w) + 10
          \<and> pokemons (app (modal_confirm oc (handleResellConfirmation pokemonId pokemonName w)))
              = map (\<lambda>q. if pokemon_id q = pokemonId then p\<lparr>status := RESOLD\<rparr> else q)
                  (pokemons (app w))
          \<and> calls (modal_confirm oc (handleResellConfirmation pokemonId pokemonName w))
              = calls w @ [UpdatePokemon (p\<lparr>status := RESOLD\<rparr>),
                           UpdateTokenBalance (tokenBalance (app w) + 10)])
    \<and> (status_write oc \<noteq> None \<or> credit_write oc \<noteq> None \<longrightarrow>
            tokenBalance (app (modal_confirm oc (handleResellConfirmation pokemonId pokemonName w)))
              = tokenBalance (app w)
          \<and> pokemons (app (modal_confirm oc (handleResellConfirmation pokemonId pokemonName w)))
              = pokemons (app w))
    \<and> (status_write oc \<noteq> None \<longrightarrow>
            calls (modal_confirm oc (handleResellConfirmation pokemonId pokemonName w))
              = calls w @ [UpdatePokemon (p\<lparr>status := RESOLD\<rparr>)])
    \<and> \<not> isModalConfirmLoading
          (app (modal_confirm oc (handleResellConfirmation pokemonId pokemonName w)))
    \<and> \<not> isModalOpen (app (modal_confirm oc (handleResellConfirmation pokemonId pokemonName w)))
    \<and> \<not> isModalConfirmLoading (app (onConfirmAction pokemons_c tokenBalance_c i oc' w'))
    \<and> \<not> isModalOpen (app (onConfirmAction pokemons_c tokenBalance_c i oc' w'))"
proof -
  have idp: "pokemon_id p = pokemonId"
    using assms(1) by (rule find_Some_id)
  have stored: "modalOnConfirm (app (handleResellConfirmation pokemonId pokemonName w))
           = Some (OnConfirmAction (pokemons (app w)) (tokenBalance (app w)) pokemonId)"
    using assms(1) by (simp add: handleResellConfirmation_def Let_def)
  show ?thesis
    unfolding confirm_runs_closure[OF assms(1)]
    using assms idp confirm_clears_flags stored
    by (auto simp add: resell_defs handleResellConfirmation_def world_ops replace_by_id_def
          Let_def split: option.splits)
qed

theorem resell_confirm_witness:
  "find (\<lambda>p. pokemon_id p = ''p1'') (pokemons (app lab)) = Some abra \<and> rarity abra = A
   \<and> status_write writes_ok = None \<and> credit_write writes_ok = None
   \<and> tokenBalance (app (modal_confirm writes_ok (handleResellConfirmation ''p1'' ''Abra'' lab)))
       = 30
   \<and> pokemons (app (modal_confirm writes_ok (handleResellConfirmation ''p1'' ''Abra'' lab)))
       = [abra\<lparr>status := RESOLD\<rparr>]
   \<and> calls (modal_confirm writes_ok (handleResellConfirmation ''p1'' ''Abra'' lab))
       = [UpdatePokemon (abra\<lparr>status := RESOLD\<rparr>), UpdateTokenBalance 30]
   \<and> \<not> isModalConfirmLoading
         (app (modal_confirm writes_ok (handleResellConfirmation ''p1'' ''Abra'' lab)))
   \<and> \<not> isModalOpen (app (modal_confirm writes_ok (handleResellConfirmation ''p1'' ''Abra'' lab)))"
proof -
  have found: "find (\<lambda>p. pokemon_id p = ''p1'') (pokemons (app lab)) = Some abra"
    by (simp add: lab_def abra_def)
  have tier: "rarity abra = A"
    by (simp add: abra_def)
  have oc: "status_write writes_ok = None" "credit_write writes_ok = None"
    by (simp_all add: writes_ok_def)
  have facts: "tokenBalance (app lab) = 20" "pokemons (app lab) = [abra]" "calls lab = []"
    "pokemon_id abra = ''p1''"
    by (simp_all add: lab_def abra_def)
  show ?thesis
    using resell_confirm[where pokemonName = "''Abra''" and oc = writes_ok, OF found tier]
      found tier oc facts
    by simp
qed

text \<open>
  C10: when the identity the confirm action was created for is not in the collection the
  action holds, the action makes no call and changes nothing in the store, the collection,
  the balance or the message: the world it leaves is the one closeModal gives, with the
  busy flag false and the dialog closed.
\<close>

theorem confirm_not_found:
  assumes "find (\<lambda>p. pokemon_id p = pokemonId) pokemons_c = None"
  shows "onConfirmAction pokemons_c tokenBalance_c pokemonId oc w = closeModal w
    \<and> calls (onConfirmAction pokemons_c tokenBalance_c pokemonId oc w) = calls w
    \<and> db (onConfirmAction pokemons_c tokenBalance_c pokemonId oc w) = db w
    \<and> pokemons (app (onConfirmAction pokemons_c tokenBalance_c pokemonId oc w)) = pokemons (app w)
    \<and> tokenBalance (app (onConfirmAction pokemons_c tokenBalance_c pokemonId oc w))
        = tokenBalance (app w)
    \<and> message (app (onConfirmAction pokemons_c tokenBalance_c pokemonId oc w)) = message (app w)
    \<and> \<not> isModalConfirmLoading (app (onConfirmAction pokemons_c tokenBalance_c pokemonId oc w))
    \<and> \<not> isModalOpen (app (onConfirmAction pokemons_c tokenBalance_c pokemonId oc w))"
  using assms
  by (simp add: resell_defs world_ops Let_def)

theorem confirm_not_found_witness:
  "find (\<lambda>p. pokemon_id p = ''p9'') [abra] = None
   \<and> onConfirmAction [abra] 20 ''p9'' writes_ok lab = closeModal lab
   \<and> calls (onConfirmAction [abra] 20 ''p9'' writes_ok lab) = []
   \<and> db (onConfirmAction [abra] 20 ''p9'' writes_ok lab) = db lab
   \<and> message (app (onConfirmAction [abra] 20 ''p9'' writes_ok lab)) = None"
proof -
  have absent: "find (\<lambda>p. pokemon_id p = ''p9'') [abra] = None"
    by (simp add: abra_def)
  have facts: "calls lab = []" "message (app lab) = None"
    by (simp_all add: lab_def initial_state_def)
  show ?thesis
    using confirm_not_found[OF absent, of 20 writes_ok lab] absent facts
    by (simp add: closeModal_def)
qed

text \<open>
  C8, evaluated on the run \<open>resell_opened_during_generation\<close>: the dialog is open on
  the owned creature of rarity A and the balance is 20 when the confirmation is clicked.
  Both store writes return, the creature's status becomes RESOLD, the busy flag is false
  and the dialog is closed afterwards, but the balance written and the in-memory balance
  are 20: the resale has credited nothing instead of 10.
\<close>

theorem resell_rarity_A_credits_nothing:
  "isModalOpen (app (fst resell_opened_during_generation))
   \<and> pokemonToResellId (app (fst resell_opened_during_generation)) = Some ''p1''
   \<and> find (\<lambda>p. pokemon_id p = ''p1'') (pokemons (app (fst resell_opened_during_generation)))
       = Some abra
   \<and> status abra = OWNED \<and> rarity abra = A
   \<and> tokenBalance (app (fst resell_opened_during_generation)) = 20
   \<and> snd resell_opened_during_generation
       = modal_confirm writes_ok (fst resell_opened_during_generation)
   \<and> status_write writes_ok = None \<and> credit_write writes_ok = None
   \<and> calls (snd resell_opened_during_generation)
       = calls (fst resell_opened_during_generation)
         @ [UpdatePokemon (abra\<lparr>status := RESOLD\<rparr>), UpdateTokenBalance 20]
   \<and> tokenBalance (app (snd resell_opened_during_generation)) = 20
   \<and> map status (pokemons (app (snd resell_opened_during_generation))) = [RESOLD]
   \<and> \<not> isModalConfirmLoading (app (snd resell_opened_during_generation))
   \<and> \<not> isModalOpen (app (snd resell_opened_during_generation))"
  by (simp add: resell_opened_during_generation_def generate_begin_def generate_resume_def
      generate_catch_def generate_finally_def handleResellConfirmation_def modal_confirm_def
      resell_defs world_ops replace_by_id_def Let_def
      lab_def abra_def client_fails_def writes_ok_def initial_state_def GENERATION_COST_def)

text \<open>
  C1, evaluated on the run \<open>resell_opened_during_generation\<close>: when the confirmation is
  clicked the balance is 20, in memory and in the store, and the creature, of resale value
  10, is in the collection; the confirm action persists the balance 20 and sets the
  in-memory balance to 20, not 30. It adds the resale value to the balance 10 that its
  closure holds from the moment the dialog was opened.
\<close>

theorem resell_uses_captured_balance:
  "tokenBalance (app (fst resell_opened_during_generation)) = 20
   \<and> db_balance (db (fst resell_opened_during_generation)) = 20
   \<and> pokemons (app (fst resell_opened_during_generation)) = [abra]
   \<and> modalOnConfirm (app (fst resell_opened_during_generation))
       = Some (OnConfirmAction [abra] 10 ''p1'')
   \<and> getRarityResellValue (rarity abra) = 10
   \<and> db_balance (db (snd resell_opened_during_generation)) = 20
   \<and> tokenBalance (app (snd resell_opened_during_generation)) = 20
   \<and> pokemons (app (snd resell_opened_during_generation)) = [abra\<lparr>status := RESOLD\<rparr>]"
  by (simp add: resell_opened_during_generation_def generate_begin_def generate_resume_def
      generate_catch_def generate_finally_def handleResellConfirmation_def modal_confirm_def
      resell_defs world_ops replace_by_id_def Let_def
      lab_def abra_def client_fails_def writes_ok_def initial_state_def GENERATION_COST_def)

subsection \<open>Display ordering\<close>




























end
